theory Spec2Isabelle
  imports Complex_Main
begin

section \<open>Numbers and faults\<close>

text \<open>
  The module \<^verbatim>\<open>homework.py\<close> computes with Python numbers: the readings are
  \<^verbatim>\<open>int\<close> or \<^verbatim>\<open>float\<close>, and every derived quantity is a \<^verbatim>\<open>float\<close>.
  Numbers are modelled as \<^typ>\<open>real\<close>: an \<^verbatim>\<open>int\<close> is the same number as a real and
  the arithmetic is exact. The rounding of IEEE binary64 (and with it overflow,
  infinities, NaN and the negative zero) is outside the model; every statement below is
  about the formulas the code evaluates, in exact arithmetic.

  A raised exception is a result: a fallible computation returns
  \<open>error + 'a\<close>, with \<open>Inl\<close> for the exception.
\<close>

datatype error =
    ZeroDivisionError
  | NotImplementedError
  | KeyError
  | AttributeError
  | TypeError

text \<open>Python's \<^verbatim>\<open>a / b\<close>: true division, which raises on a zero divisor.\<close>

definition truediv :: "real \<Rightarrow> real \<Rightarrow> error + real" where
  "truediv a b = (if b = 0 then Inl ZeroDivisionError else Inr (a / b))"

text \<open>
  Python's \<^verbatim>\<open>a // b\<close>: the floor of the quotient (towards minus infinity), again
  a number of the operands' kind, and a fault on a zero divisor. The operands here are
  the exact reals of the model. In the program they are binary64 numbers, so the
  program's integer is another one wherever rounding has moved an operand across a
  multiple of the divisor.
\<close>

definition floordiv :: "real \<Rightarrow> real \<Rightarrow> error + real" where
  "floordiv a b = (if b = 0 then Inl ZeroDivisionError else Inr (of_int \<lfloor>a / b\<rfloor>))"

section \<open>The workout classes\<close>

text \<open>
  An object of class \<^verbatim>\<open>Training\<close> or of one of its three subclasses: the constructor
  names the class, its arguments are the attributes \<^verbatim>\<open>__init__\<close> stores.
\<close>

datatype training =
    Training (action: real) (duration: real) (weight: real)
  | Running (action: real) (duration: real) (weight: real)
  | SportsWalking (action: real) (duration: real) (weight: real) (height: real)
  | Swimming (action: real) (duration: real) (weight: real)
      (length_pool: real) (count_pool: real)

text \<open>\<^verbatim>\<open>type(self).__name__\<close>\<close>

fun type_name :: "training \<Rightarrow> string" where
  "type_name (Training a d w) = ''Training''"
| "type_name (Running a d w) = ''Running''"
| "type_name (SportsWalking a d w h) = ''SportsWalking''"
| "type_name (Swimming a d w lp cp) = ''Swimming''"

text \<open>The class attributes. \<^verbatim>\<open>LEN_STEP\<close> is overridden by \<^verbatim>\<open>Swimming\<close>.\<close>

fun LEN_STEP :: "training \<Rightarrow> real" where
  "LEN_STEP (Swimming a d w lp cp) = 1.38"
| "LEN_STEP (Training a d w) = 0.65"
| "LEN_STEP (Running a d w) = 0.65"
| "LEN_STEP (SportsWalking a d w h) = 0.65"

definition M_IN_KM :: real where
  "M_IN_KM = 1000"

definition HOURS_TO_MIN :: real where
  "HOURS_TO_MIN = 60"

definition COEFF_CALORIE_RUN_1 :: real where
  "COEFF_CALORIE_RUN_1 = 18"

definition COEFF_CALORIE_RUN_2 :: real where
  "COEFF_CALORIE_RUN_2 = 20"

definition COEFF_CALORIE_WLK_1 :: real where
  "COEFF_CALORIE_WLK_1 = 0.035"

definition COEFF_CALORIE_WLK_2 :: real where
  "COEFF_CALORIE_WLK_2 = 0.029"

definition COEFF_CALORIE_SWM_1 :: real where
  "COEFF_CALORIE_SWM_1 = 1.1"

definition COEFF_CALORIE_SWM_2 :: real where
  "COEFF_CALORIE_SWM_2 = 2"

subsection \<open>Distance and mean speed\<close>

text \<open>
  \<^verbatim>\<open>Training.get_distance\<close>, inherited by every subclass:
  \<^verbatim>\<open>self.action * self.LEN_STEP / self.M_IN_KM\<close>.
\<close>

definition get_distance :: "training \<Rightarrow> error + real" where
  "get_distance t = truediv (action t * LEN_STEP t) M_IN_KM"

text \<open>\<^verbatim>\<open>Training.get_mean_speed\<close>: \<^verbatim>\<open>self.get_distance() / self.duration\<close>.\<close>

definition Training_get_mean_speed :: "training \<Rightarrow> error + real" where
  "Training_get_mean_speed t =
     (case get_distance t of
        Inl e \<Rightarrow> Inl e
      | Inr km \<Rightarrow> truediv km (duration t))"

text \<open>
  \<^verbatim>\<open>Swimming.get_mean_speed\<close>:
  \<^verbatim>\<open>self.length_pool * self.count_pool / self.M_IN_KM / self.duration\<close>.
\<close>

definition Swimming_get_mean_speed :: "training \<Rightarrow> error + real" where
  "Swimming_get_mean_speed t =
     (case truediv (length_pool t * count_pool t) M_IN_KM of
        Inl e \<Rightarrow> Inl e
      | Inr km \<Rightarrow> truediv km (duration t))"

text \<open>The call \<^verbatim>\<open>self.get_mean_speed()\<close>, resolved by the class of the object.\<close>

fun get_mean_speed :: "training \<Rightarrow> error + real" where
  "get_mean_speed (Swimming a d w lp cp) = Swimming_get_mean_speed (Swimming a d w lp cp)"
| "get_mean_speed (Training a d w) = Training_get_mean_speed (Training a d w)"
| "get_mean_speed (Running a d w) = Training_get_mean_speed (Running a d w)"
| "get_mean_speed (SportsWalking a d w h) = Training_get_mean_speed (SportsWalking a d w h)"

subsection \<open>Calories\<close>

text \<open>\<^verbatim>\<open>Training.get_spent_calories\<close> raises \<^verbatim>\<open>NotImplementedError\<close>.\<close>

definition Training_get_spent_calories :: "training \<Rightarrow> error + real" where
  "Training_get_spent_calories t = Inl NotImplementedError"

text \<open>
  \<^verbatim>\<open>Running.get_spent_calories\<close>:
  \<^verbatim>\<open>(self.COEFF_CALORIE_RUN_1 * self.get_mean_speed() - self.COEFF_CALORIE_RUN_2)
     * self.weight / self.M_IN_KM * self.duration * self.HOURS_TO_MIN\<close>
\<close>

definition Running_get_spent_calories :: "training \<Rightarrow> error + real" where
  "Running_get_spent_calories t =
     (case get_mean_speed t of
        Inl e \<Rightarrow> Inl e
      | Inr mean_speed \<Rightarrow>
          (case truediv ((COEFF_CALORIE_RUN_1 * mean_speed - COEFF_CALORIE_RUN_2) * weight t)
                  M_IN_KM of
             Inl e \<Rightarrow> Inl e
           | Inr q \<Rightarrow> Inr (q * duration t * HOURS_TO_MIN)))"

text \<open>
  \<^verbatim>\<open>SportsWalking.get_spent_calories\<close>:
  \<^verbatim>\<open>(self.COEFF_CALORIE_WLK_1 * self.weight
      + (self.get_mean_speed() ** 2 // self.height)
      * self.COEFF_CALORIE_WLK_2 * self.weight) * self.duration * self.HOURS_TO_MIN\<close>
\<close>

definition SportsWalking_get_spent_calories :: "training \<Rightarrow> error + real" where
  "SportsWalking_get_spent_calories t =
     (case get_mean_speed t of
        Inl e \<Rightarrow> Inl e
      | Inr mean_speed \<Rightarrow>
          (case floordiv (mean_speed ^ 2) (height t) of
             Inl e \<Rightarrow> Inl e
           | Inr fl \<Rightarrow>
               Inr ((COEFF_CALORIE_WLK_1 * weight t + fl * COEFF_CALORIE_WLK_2 * weight t)
                     * duration t * HOURS_TO_MIN)))"

text \<open>
  \<^verbatim>\<open>Swimming.get_spent_calories\<close>:
  \<^verbatim>\<open>(self.get_mean_speed() + self.COEFF_CALORIE_SWM_1)
     * self.COEFF_CALORIE_SWM_2 * self.weight\<close>
\<close>

definition Swimming_get_spent_calories :: "training \<Rightarrow> error + real" where
  "Swimming_get_spent_calories t =
     (case get_mean_speed t of
        Inl e \<Rightarrow> Inl e
      | Inr mean_speed \<Rightarrow>
          Inr ((mean_speed + COEFF_CALORIE_SWM_1) * COEFF_CALORIE_SWM_2 * weight t))"

text \<open>The call \<^verbatim>\<open>self.get_spent_calories()\<close>, resolved by the class of the object.\<close>

fun get_spent_calories :: "training \<Rightarrow> error + real" where
  "get_spent_calories (Training a d w) = Training_get_spent_calories (Training a d w)"
| "get_spent_calories (Running a d w) = Running_get_spent_calories (Running a d w)"
| "get_spent_calories (SportsWalking a d w h) =
     SportsWalking_get_spent_calories (SportsWalking a d w h)"
| "get_spent_calories (Swimming a d w lp cp) =
     Swimming_get_spent_calories (Swimming a d w lp cp)"

section \<open>The report\<close>

text \<open>
  The dataclass \<^verbatim>\<open>InfoMessage\<close>. Its field \<^verbatim>\<open>duration\<close> is \<open>duration_msg\<close> here,
  the name \<open>duration\<close> being the attribute of a training.
\<close>

record InfoMessage =
  training_type :: string
  duration_msg :: real
  distance :: real
  speed :: real
  calories :: real

text \<open>
  The format specification \<^verbatim>\<open>.3f\<close>. Python renders the number in fixed-point
  notation with three digits after the point, rounded to the nearest thousandth with
  ties to the even neighbour; a negative number keeps its sign even when it rounds to
  zero.
\<close>

definition round_half_even :: "real \<Rightarrow> int" where
  "round_half_even y =
     (let f = \<lfloor>y\<rfloor>; r = y - of_int f
      in if r < 1 / 2 then f else if 1 / 2 < r then f + 1 else if even f then f else f + 1)"

definition digit_char :: "nat \<Rightarrow> char" where
  "digit_char d = ''0123456789'' ! (d mod 10)"

function str_nat :: "nat \<Rightarrow> string" where
  "str_nat n = (if n < 10 then [digit_char n] else str_nat (n div 10) @ [digit_char (n mod 10)])"
  by pat_completeness auto
termination
  by (relation "measure (\<lambda>n. n)") auto

declare str_nat.simps [simp del]

definition format_3f :: "real \<Rightarrow> string" where
  "format_3f x =
     (let m = nat (round_half_even (\<bar>x\<bar> * 1000))
      in (if x < 0 then ''-'' else []) @ str_nat (m div 1000) @ ''.'' @
         [digit_char (m div 100), digit_char (m div 10), digit_char m])"

subsection \<open>The words of the messages\<close>

text \<open>
  A Python string is modelled by its UTF-8 encoding, one \<^typ>\<open>char\<close> for each byte,
  which is what \<^verbatim>\<open>print\<close> writes. The messages of the module are Russian: each
  Cyrillic letter is two bytes. The words are named by their transliteration and
  listed with their code points.
\<close>

text \<open>\<^verbatim>\<open>Tip\<close>: U+0422 U+0438 U+043F\<close>

definition ru_Tip :: string where
  "ru_Tip =
     [CHR 0xD0, CHR 0xA2, CHR 0xD0, CHR 0xB8, CHR 0xD0, CHR 0xBF]"

text \<open>\<^verbatim>\<open>trenirovki\<close>: U+0442 U+0440 U+0435 U+043D U+0438 U+0440 U+043E U+0432 U+043A U+0438\<close>

definition ru_trenirovki :: string where
  "ru_trenirovki =
     [CHR 0xD1, CHR 0x82, CHR 0xD1, CHR 0x80, CHR 0xD0, CHR 0xB5, CHR 0xD0, CHR 0xBD,
      CHR 0xD0, CHR 0xB8, CHR 0xD1, CHR 0x80, CHR 0xD0, CHR 0xBE, CHR 0xD0, CHR 0xB2,
      CHR 0xD0, CHR 0xBA, CHR 0xD0, CHR 0xB8]"

text \<open>\<^verbatim>\<open>Dlitel'nost'\<close>: U+0414 U+043B U+0438 U+0442 U+0435 U+043B U+044C U+043D U+043E U+0441 U+0442 U+044C\<close>

definition ru_Dlitelnost :: string where
  "ru_Dlitelnost =
     [CHR 0xD0, CHR 0x94, CHR 0xD0, CHR 0xBB, CHR 0xD0, CHR 0xB8, CHR 0xD1, CHR 0x82,
      CHR 0xD0, CHR 0xB5, CHR 0xD0, CHR 0xBB, CHR 0xD1, CHR 0x8C, CHR 0xD0, CHR 0xBD,
      CHR 0xD0, CHR 0xBE, CHR 0xD1, CHR 0x81, CHR 0xD1, CHR 0x82, CHR 0xD1, CHR 0x8C]"

text \<open>\<^verbatim>\<open>ch\<close>: U+0447\<close>

definition ru_ch :: string where
  "ru_ch =
     [CHR 0xD1, CHR 0x87]"

text \<open>\<^verbatim>\<open>Distantsiya\<close>: U+0414 U+0438 U+0441 U+0442 U+0430 U+043D U+0446 U+0438 U+044F\<close>

definition ru_Distantsiya :: string where
  "ru_Distantsiya =
     [CHR 0xD0, CHR 0x94, CHR 0xD0, CHR 0xB8, CHR 0xD1, CHR 0x81, CHR 0xD1, CHR 0x82,
      CHR 0xD0, CHR 0xB0, CHR 0xD0, CHR 0xBD, CHR 0xD1, CHR 0x86, CHR 0xD0, CHR 0xB8,
      CHR 0xD1, CHR 0x8F]"

text \<open>\<^verbatim>\<open>km\<close>: U+043A U+043C\<close>

definition ru_km :: string where
  "ru_km =
     [CHR 0xD0, CHR 0xBA, CHR 0xD0, CHR 0xBC]"

text \<open>\<^verbatim>\<open>Sr\<close>: U+0421 U+0440\<close>

definition ru_Sr :: string where
  "ru_Sr =
     [CHR 0xD0, CHR 0xA1, CHR 0xD1, CHR 0x80]"

text \<open>\<^verbatim>\<open>skorost'\<close>: U+0441 U+043A U+043E U+0440 U+043E U+0441 U+0442 U+044C\<close>

definition ru_skorost :: string where
  "ru_skorost =
     [CHR 0xD1, CHR 0x81, CHR 0xD0, CHR 0xBA, CHR 0xD0, CHR 0xBE, CHR 0xD1, CHR 0x80,
      CHR 0xD0, CHR 0xBE, CHR 0xD1, CHR 0x81, CHR 0xD1, CHR 0x82, CHR 0xD1, CHR 0x8C]"

text \<open>\<^verbatim>\<open>Potracheno\<close>: U+041F U+043E U+0442 U+0440 U+0430 U+0447 U+0435 U+043D U+043E\<close>

definition ru_Potracheno :: string where
  "ru_Potracheno =
     [CHR 0xD0, CHR 0x9F, CHR 0xD0, CHR 0xBE, CHR 0xD1, CHR 0x82, CHR 0xD1, CHR 0x80,
      CHR 0xD0, CHR 0xB0, CHR 0xD1, CHR 0x87, CHR 0xD0, CHR 0xB5, CHR 0xD0, CHR 0xBD,
      CHR 0xD0, CHR 0xBE]"

text \<open>\<^verbatim>\<open>kkal\<close>: U+043A U+043A U+0430 U+043B\<close>

definition ru_kkal :: string where
  "ru_kkal =
     [CHR 0xD0, CHR 0xBA, CHR 0xD0, CHR 0xBA, CHR 0xD0, CHR 0xB0, CHR 0xD0, CHR 0xBB]"

text \<open>\<^verbatim>\<open>ne\<close>: U+043D U+0435\<close>

definition ru_ne :: string where
  "ru_ne =
     [CHR 0xD0, CHR 0xBD, CHR 0xD0, CHR 0xB5]"

text \<open>\<^verbatim>\<open>mozhet\<close>: U+043C U+043E U+0436 U+0435 U+0442\<close>

definition ru_mozhet :: string where
  "ru_mozhet =
     [CHR 0xD0, CHR 0xBC, CHR 0xD0, CHR 0xBE, CHR 0xD0, CHR 0xB6, CHR 0xD0, CHR 0xB5,
      CHR 0xD1, CHR 0x82]"

text \<open>\<^verbatim>\<open>byt'\<close>: U+0431 U+044B U+0442 U+044C\<close>

definition ru_byt :: string where
  "ru_byt =
     [CHR 0xD0, CHR 0xB1, CHR 0xD1, CHR 0x8B, CHR 0xD1, CHR 0x82, CHR 0xD1, CHR 0x8C]"

text \<open>\<^verbatim>\<open>obrabotan\<close>: U+043E U+0431 U+0440 U+0430 U+0431 U+043E U+0442 U+0430 U+043D\<close>

definition ru_obrabotan :: string where
  "ru_obrabotan =
     [CHR 0xD0, CHR 0xBE, CHR 0xD0, CHR 0xB1, CHR 0xD1, CHR 0x80, CHR 0xD0, CHR 0xB0,
      CHR 0xD0, CHR 0xB1, CHR 0xD0, CHR 0xBE, CHR 0xD1, CHR 0x82, CHR 0xD0, CHR 0xB0,
      CHR 0xD0, CHR 0xBD]"

text \<open>
  \<^verbatim>\<open>InfoMessage.get_message\<close>: the five pieces of the f-string, one on each line as
  in the source.
\<close>

definition get_message :: "InfoMessage \<Rightarrow> string" where
  "get_message info =
     ru_Tip @ '' '' @ ru_trenirovki @ '': '' @ training_type info @ ''; '' @
     ru_Dlitelnost @ '': '' @ format_3f (duration_msg info) @ '' '' @ ru_ch @ ''.; '' @
     ru_Distantsiya @ '': '' @ format_3f (distance info) @ '' '' @ ru_km @ ''; '' @
     ru_Sr @ ''. '' @ ru_skorost @ '': '' @ format_3f (speed info) @ '' '' @ ru_km @ ''/'' @
       ru_ch @ ''; '' @
     ru_Potracheno @ '' '' @ ru_kkal @ '': '' @ format_3f (calories info) @ ''.''"

text \<open>\<^verbatim>\<open>Training.show_training_info\<close>: the keyword arguments are evaluated in order.\<close>

definition show_training_info :: "training \<Rightarrow> error + InfoMessage" where
  "show_training_info t =
     (case get_distance t of
        Inl e \<Rightarrow> Inl e
      | Inr km \<Rightarrow>
          (case get_mean_speed t of
             Inl e \<Rightarrow> Inl e
           | Inr mean_speed \<Rightarrow>
               (case get_spent_calories t of
                  Inl e \<Rightarrow> Inl e
                | Inr kcal \<Rightarrow>
                    Inr \<lparr>training_type = type_name t, duration_msg = duration t,
                         distance = km, speed = mean_speed, calories = kcal\<rparr>)))"

section \<open>Dispatch and driver\<close>

text \<open>
  The call \<^verbatim>\<open>cls(*data)\<close>: the list is spread over the positional parameters of
  \<^verbatim>\<open>__init__\<close>, and a list of another length is a \<^verbatim>\<open>TypeError\<close>.
\<close>

fun new_Swimming :: "real list \<Rightarrow> error + training" where
  "new_Swimming [a, d, w, lp, cp] = Inr (Swimming a d w lp cp)"
| "new_Swimming data = Inl TypeError"

fun new_Running :: "real list \<Rightarrow> error + training" where
  "new_Running [a, d, w] = Inr (Running a d w)"
| "new_Running data = Inl TypeError"

fun new_SportsWalking :: "real list \<Rightarrow> error + training" where
  "new_SportsWalking [a, d, w, h] = Inr (SportsWalking a d w h)"
| "new_SportsWalking data = Inl TypeError"

text \<open>The dictionary \<^verbatim>\<open>trainings\<close> of \<^verbatim>\<open>read_package\<close>.\<close>

definition trainings :: "string \<rightharpoonup> (real list \<Rightarrow> error + training)" where
  "trainings =
     map_of [(''SWM'', new_Swimming), (''RUN'', new_Running), (''WLK'', new_SportsWalking)]"

text \<open>
  Standard output is the list of the lines printed so far; \<^verbatim>\<open>print\<close> appends one.
\<close>

type_synonym stdout = "string list"

text \<open>
  The message of the \<^verbatim>\<open>except KeyError\<close> branch of \<^verbatim>\<open>read_package\<close>.
\<close>

definition key_error_message :: "string \<Rightarrow> string" where
  "key_error_message workout_type =
     ''KeyError: '' @ ru_Tip @ '' '' @ ru_trenirovki @ '' '' @ workout_type @ '' '' @
     ru_ne @ '' '' @ ru_mozhet @ '' '' @ ru_byt @ '' '' @ ru_obrabotan @ ''.''"

text \<open>
  \<^verbatim>\<open>read_package\<close>. The \<^verbatim>\<open>try\<close> covers the lookup and the call of the class; a
  \<^verbatim>\<open>KeyError\<close> is caught, the message is printed and the function falls off its end,
  returning \<^verbatim>\<open>None\<close>. Every other exception propagates.
\<close>

definition read_package ::
  "string \<Rightarrow> real list \<Rightarrow> stdout \<Rightarrow> (error + training option) \<times> stdout" where
  "read_package workout_type data out =
     (case (case trainings workout_type of
              None \<Rightarrow> Inl KeyError
            | Some cls \<Rightarrow> cls data) of
        Inr t \<Rightarrow> (Inr (Some t), out)
      | Inl e \<Rightarrow>
          if e = KeyError then (Inr None, out @ [key_error_message workout_type])
          else (Inl e, out))"

text \<open>
  \<^verbatim>\<open>main\<close>. Its argument is what \<^verbatim>\<open>read_package\<close> returned: a training or
  \<^verbatim>\<open>None\<close>, and \<^verbatim>\<open>None\<close> has no attribute \<^verbatim>\<open>show_training_info\<close>. An
  \<^verbatim>\<open>AttributeError\<close> is caught and the function returns; every other exception
  propagates.
\<close>

definition main :: "training option \<Rightarrow> stdout \<Rightarrow> (error + unit) \<times> stdout" where
  "main training out =
     (case (case training of
              None \<Rightarrow> Inl AttributeError
            | Some t \<Rightarrow> show_training_info t) of
        Inr info \<Rightarrow> (Inr (), out @ [get_message info])
      | Inl e \<Rightarrow> if e = AttributeError then (Inr (), out) else (Inl e, out))"

text \<open>
  The loop of the script: each pair is dispatched and reported in turn, and an
  exception that leaves \<^verbatim>\<open>read_package\<close> or \<^verbatim>\<open>main\<close> ends the run.
\<close>

fun run_packages :: "(string \<times> real list) list \<Rightarrow> stdout \<Rightarrow> (error + unit) \<times> stdout" where
  "run_packages [] out = (Inr (), out)"
| "run_packages ((workout_type, data) # rest) out =
     (case read_package workout_type data out of
        (Inl e, out') \<Rightarrow> (Inl e, out')
      | (Inr training, out') \<Rightarrow>
          (case main training out' of
             (Inl e, out'') \<Rightarrow> (Inl e, out'')
           | (Inr u, out'') \<Rightarrow> run_packages rest out''))"

definition packages :: "(string \<times> real list) list" where
  "packages =
     [(''SWM'', [720, 1, 80, 25, 40]),
      (''RUN'', [15000, 1, 75]),
      (''WLK'', [9000, 1, 75, 180])]"

section \<open>Notions of the specification\<close>

text \<open>The readings a training was constructed from, in the order of the constructor.\<close>

fun readings :: "training \<Rightarrow> real list" where
  "readings (Training a d w) = [a, d, w]"
| "readings (Running a d w) = [a, d, w]"
| "readings (SportsWalking a d w h) = [a, d, w, h]"
| "readings (Swimming a d w lp cp) = [a, d, w, lp, cp]"

text \<open>
  A string is a fixed-point numeral with three decimals: an optional minus sign, at
  least one digit, the point, and exactly three digits.
\<close>

definition is_digit :: "char \<Rightarrow> bool" where
  "is_digit c = (c \<in> set ''0123456789'')"

definition three_decimals :: "string \<Rightarrow> bool" where
  "three_decimals s =
     (let body = (case s of [] \<Rightarrow> [] | c # cs \<Rightarrow> if c = CHR ''-'' then cs else s);
          n = length body
      in 5 \<le> n \<and>
         list_all is_digit (take (n - 4) body) \<and>
         body ! (n - 4) = CHR ''.'' \<and>
         list_all is_digit (drop (n - 3) body))"

section \<open>Shared lemmas\<close>

lemmas class_attributes =
  M_IN_KM_def HOURS_TO_MIN_def COEFF_CALORIE_RUN_1_def COEFF_CALORIE_RUN_2_def
  COEFF_CALORIE_WLK_1_def COEFF_CALORIE_WLK_2_def COEFF_CALORIE_SWM_1_def
  COEFF_CALORIE_SWM_2_def

text \<open>The division by \<^verbatim>\<open>M_IN_KM\<close> never faults, so the distance is always a number.\<close>

lemma get_distance_eq: "get_distance t = Inr (action t * LEN_STEP t / 1000)"
  by (simp add: get_distance_def truediv_def M_IN_KM_def)

lemma Training_get_mean_speed_eq:
  "Training_get_mean_speed t =
     (if duration t = 0 then Inl ZeroDivisionError
      else Inr (action t * LEN_STEP t / 1000 / duration t))"
  by (simp add: Training_get_mean_speed_def get_distance_eq truediv_def)

lemma Swimming_get_mean_speed_eq:
  "Swimming_get_mean_speed t =
     (if duration t = 0 then Inl ZeroDivisionError
      else Inr (length_pool t * count_pool t / 1000 / duration t))"
  by (simp add: Swimming_get_mean_speed_def truediv_def M_IN_KM_def)

lemma Running_get_spent_calories_eq:
  "Running_get_spent_calories t =
     (case get_mean_speed t of
        Inl e \<Rightarrow> Inl e
      | Inr v \<Rightarrow> Inr ((18 * v - 20) * weight t / 1000 * duration t * 60))"
  by (simp add: Running_get_spent_calories_def truediv_def class_attributes split: sum.split)

lemma SportsWalking_get_spent_calories_eq:
  "SportsWalking_get_spent_calories t =
     (case get_mean_speed t of
        Inl e \<Rightarrow> Inl e
      | Inr v \<Rightarrow>
          if height t = 0 then Inl ZeroDivisionError
          else Inr ((0.035 * weight t + of_int \<lfloor>v\<^sup>2 / height t\<rfloor> * 0.029 * weight t)
                     * duration t * 60))"
  by (simp add: SportsWalking_get_spent_calories_def floordiv_def class_attributes
      split: sum.split)

lemma Swimming_get_spent_calories_eq:
  "Swimming_get_spent_calories t =
     (case get_mean_speed t of
        Inl e \<Rightarrow> Inl e
      | Inr v \<Rightarrow> Inr ((v + 1.1) * 2 * weight t))"
  by (simp add: Swimming_get_spent_calories_def class_attributes split: sum.split)

text \<open>The three known codes construct the three subclasses from lists of the right length.\<close>

lemma read_package_known:
  "read_package ''SWM'' [a, d, w, lp, cp] out = (Inr (Some (Swimming a d w lp cp)), out)"
  "read_package ''RUN'' [a, d, w] out = (Inr (Some (Running a d w)), out)"
  "read_package ''WLK'' [a, d, w, h] out = (Inr (Some (SportsWalking a d w h)), out)"
  by (simp_all add: read_package_def trainings_def)

lemma trainings_unknown:
  "workout_type \<notin> {''SWM'', ''RUN'', ''WLK''} \<Longrightarrow> trainings workout_type = None"
  by (simp add: trainings_def)

lemma read_package_unknown:
  "workout_type \<notin> {''SWM'', ''RUN'', ''WLK''} \<Longrightarrow>
   read_package workout_type data out = (Inr None, out @ [key_error_message workout_type])"
  by (simp add: read_package_def trainings_unknown)

lemma main_None: "main None out = (Inr (), out)"
  by (simp add: main_def)

lemma show_training_info_base:
  "show_training_info (Training a d w) =
     Inl (if d = 0 then ZeroDivisionError else NotImplementedError)"
  by (simp add: show_training_info_def get_distance_eq Training_get_mean_speed_eq
      Training_get_spent_calories_def)

section \<open>Calories\<close>

text \<open>
  Claim C1, as amended. For every \<^verbatim>\<open>Running\<close> workout the mean speed is the base
  one, distance over duration, and the calories are
  \<open>(18 * mean_speed - 20) * weight / 1000 * duration * 60\<close>; a zero duration raises
  \<^verbatim>\<open>ZeroDivisionError\<close> in the mean speed and hence in the calories. For the readings
  \<^verbatim>\<open>[15000, 1, 75]\<close> the calories are 699.75.
\<close>

theorem running_calories:
  "get_mean_speed (Running a d w) =
     (if d = 0 then Inl ZeroDivisionError else Inr (a * 0.65 / 1000 / d)) \<and>
   get_spent_calories (Running a d w) =
     (case get_mean_speed (Running a d w) of
        Inl e \<Rightarrow> Inl e
      | Inr v \<Rightarrow> Inr ((18 * v - 20) * w / 1000 * d * 60)) \<and>
   get_spent_calories (Running 15000 1 75) = Inr 699.75"
  by (simp add: Running_get_spent_calories_eq Training_get_mean_speed_eq)

theorem running_calories_witness:
  "get_mean_speed (Running 15000 1 75) = Inr 9.75 \<and>
   get_spent_calories (Running 15000 1 75) = Inr ((18 * 9.75 - 20) * 75 / 1000 * 1 * 60)"
  using running_calories [of 15000 1 75] by simp

text \<open>
  Claim C1 as the specification states it gives 701.25 for the readings
  \<^verbatim>\<open>[15000, 1, 75]\<close>; the code computes another number.
\<close>

theorem running_calories_counterexample:
  "get_spent_calories (Running 15000 1 75) \<noteq> Inr 701.25"
  by (simp add: Running_get_spent_calories_eq Training_get_mean_speed_eq)

text \<open>
  The calories of \<^verbatim>\<open>SportsWalking\<close> have no statement here. The method takes the
  floor of \<^verbatim>\<open>self.get_mean_speed() ** 2 // self.height\<close>, and in the program both
  operands are binary64 numbers: the speed is the result of a rounded product and two
  rounded divisions, and its square is what the \<^verbatim>\<open>pow\<close> of the C library returns,
  whose last bit IEEE 754 does not fix. Where the exact quotient is an integer, or
  close to one, that rounding decides the floor. For 18000 steps in 0.9 hours and a
  height of 169 the exact speed is 13, the exact floor 1 and the exact calories 259.2,
  as the lemma below computes; binary64 arithmetic gives the speed
  12.999999999999998, the square 168.99999999999994, the floor 0 and calories of about
  141.75. A formula for these calories in exact arithmetic is therefore not a
  statement about the program, and the readings \<^verbatim>\<open>[9000, 1, 75, 180]\<close> give
  157.50000000000003 in binary64 where exact arithmetic gives 157.5.
\<close>

lemma SportsWalking_exact_floor_step:
  "get_mean_speed (SportsWalking 18000 0.9 75 169) = Inr 13 \<and>
   get_spent_calories (SportsWalking 18000 0.9 75 169) = Inr 259.2"
  by (simp add: SportsWalking_get_spent_calories_eq Training_get_mean_speed_eq
      power2_eq_square)

text \<open>
  Claim C3. For every \<^verbatim>\<open>Swimming\<close> workout the mean speed is
  \<open>length_pool * count_pool / 1000 / duration\<close> (and \<^verbatim>\<open>ZeroDivisionError\<close> at a
  zero duration), so two such workouts that agree on these three fields have the same
  mean speed whatever their stroke counts (and weights) are.
\<close>

theorem swimming_mean_speed:
  "get_mean_speed (Swimming a d w lp cp) =
     (if d = 0 then Inl ZeroDivisionError else Inr (lp * cp / 1000 / d)) \<and>
   get_mean_speed (Swimming a d w lp cp) = get_mean_speed (Swimming a' d w' lp cp)"
  by (simp add: Swimming_get_mean_speed_eq)

theorem swimming_mean_speed_witness:
  "get_mean_speed (Swimming 720 1 80 25 40) = Inr (25 * 40 / 1000 / 1) \<and>
   get_mean_speed (Swimming 720 1 80 25 40) = get_mean_speed (Swimming 5 1 60 25 40)"
proof -
  have both:
    "get_mean_speed (Swimming 720 1 80 25 40) =
       (if (1::real) = 0 then Inl ZeroDivisionError else Inr (25 * 40 / 1000 / 1)) \<and>
     get_mean_speed (Swimming 720 1 80 25 40) = get_mean_speed (Swimming 5 1 60 25 40)"
    by (rule swimming_mean_speed)
  from both have "get_mean_speed (Swimming 720 1 80 25 40) = Inr (25 * 40 / 1000 / 1)"
    by (simp del: get_mean_speed.simps)
  with both show ?thesis
    by blast
qed

text \<open>
  Claim C4. For every \<^verbatim>\<open>Swimming\<close> workout the calories are
  \<open>(mean_speed + 1.1) * 2 * weight\<close> for the overridden mean speed, and the fault of
  the mean speed when the duration is zero. For the readings
  \<^verbatim>\<open>[720, 1, 80, 25, 40]\<close> the mean speed is 1 and the calories are 336.
\<close>

theorem swimming_calories:
  "get_spent_calories (Swimming a d w lp cp) =
     (case get_mean_speed (Swimming a d w lp cp) of
        Inl e \<Rightarrow> Inl e
      | Inr v \<Rightarrow> Inr ((v + 1.1) * 2 * w)) \<and>
   get_spent_calories (Swimming a d w lp cp) =
     (if d = 0 then Inl ZeroDivisionError else Inr ((lp * cp / 1000 / d + 1.1) * 2 * w)) \<and>
   get_mean_speed (Swimming 720 1 80 25 40) = Inr 1 \<and>
   get_spent_calories (Swimming 720 1 80 25 40) = Inr 336"
  by (simp add: Swimming_get_spent_calories_eq Swimming_get_mean_speed_eq)

theorem swimming_calories_witness:
  "get_spent_calories (Swimming 720 1 80 25 40) = Inr ((1 + 1.1) * 2 * 80)"
  using swimming_calories [of 720 1 80 25 40] by simp

section \<open>Distance\<close>

text \<open>
  Claim C5, as amended. For every class the distance in km is the unit count times
  \<^verbatim>\<open>LEN_STEP\<close> divided by \<^verbatim>\<open>M_IN_KM\<close> = 1000: the step length, 0.65 for the base
  class, \<^verbatim>\<open>Running\<close> and \<^verbatim>\<open>SportsWalking\<close> and 1.38 for \<^verbatim>\<open>Swimming\<close>, is a length
  in metres. The computation never faults.
\<close>

theorem distance_of_unit_count:
  "get_distance (Training a d w) = Inr (a * 0.65 / 1000) \<and>
   get_distance (Running a d w) = Inr (a * 0.65 / 1000) \<and>
   get_distance (SportsWalking a d w h) = Inr (a * 0.65 / 1000) \<and>
   get_distance (Swimming a d w lp cp) = Inr (a * 1.38 / 1000)"
  by (simp add: get_distance_eq)

theorem distance_of_unit_count_witness:
  "get_distance (Running 15000 1 75) = Inr 9.75 \<and>
   get_distance (Swimming 720 1 80 25 40) = Inr 0.9936"
  using distance_of_unit_count [of 15000 1 75 0 25 40]
    distance_of_unit_count [of 720 1 80 0 25 40]
  by simp

text \<open>
  Claim C5 as the specification states it, the distance being the unit count times
  0.65 exactly, fails: 15000 steps are 9.75 km and not 9750 km.
\<close>

theorem distance_of_unit_count_counterexample:
  "get_distance (Running 15000 1 75) \<noteq> Inr (15000 * 0.65)"
  by (simp add: get_distance_eq)

text \<open>
  Claim C9. When every reading of a workout is non-negative and its duration is
  positive, the distance and the mean speed are computed without a fault and both are
  non-negative.
\<close>

theorem nonnegative_distance_and_speed:
  assumes "\<forall>r \<in> set (readings t). 0 \<le> r" and "0 < duration t"
  shows "\<exists>km v. get_distance t = Inr km \<and> 0 \<le> km \<and> get_mean_speed t = Inr v \<and> 0 \<le> v"
proof -
  have step: "0 \<le> LEN_STEP t"
    by (cases t) simp_all
  have act: "0 \<le> action t"
    using assms(1) by (cases t) simp_all
  have km: "0 \<le> action t * LEN_STEP t / 1000"
    using act step by simp
  have "\<exists>v. get_mean_speed t = Inr v \<and> 0 \<le> v"
  proof (cases t)
    case (Swimming a d w lp cp)
    with assms have "0 \<le> lp" "0 \<le> cp" "0 < d"
      by simp_all
    then have "0 \<le> lp * cp / 1000 / d"
      by simp
    moreover have "get_mean_speed t = Inr (lp * cp / 1000 / d)"
      using Swimming \<open>0 < d\<close> by (simp add: Swimming_get_mean_speed_eq)
    ultimately show ?thesis
      by blast
  next
    case (Training a d w)
    then have "get_mean_speed t = Inr (action t * LEN_STEP t / 1000 / duration t)"
      using assms(2) by (simp add: Training_get_mean_speed_eq)
    moreover have "0 \<le> action t * LEN_STEP t / 1000 / duration t"
      using km assms(2) by simp
    ultimately show ?thesis
      by blast
  next
    case (Running a d w)
    then have "get_mean_speed t = Inr (action t * LEN_STEP t / 1000 / duration t)"
      using assms(2) by (simp add: Training_get_mean_speed_eq)
    moreover have "0 \<le> action t * LEN_STEP t / 1000 / duration t"
      using km assms(2) by simp
    ultimately show ?thesis
      by blast
  next
    case (SportsWalking a d w h)
    then have "get_mean_speed t = Inr (action t * LEN_STEP t / 1000 / duration t)"
      using assms(2) by (simp add: Training_get_mean_speed_eq)
    moreover have "0 \<le> action t * LEN_STEP t / 1000 / duration t"
      using km assms(2) by simp
    ultimately show ?thesis
      by blast
  qed
  with km show ?thesis
    using get_distance_eq [of t] by blast
qed

theorem nonnegative_distance_and_speed_witness:
  "list_all (\<lambda>r. 0 \<le> r) (readings (Swimming 720 1 80 25 40)) \<and>
   0 < duration (Swimming 720 1 80 25 40) \<and>
   (\<exists>km v. get_distance (Swimming 720 1 80 25 40) = Inr km \<and> 0 \<le> km \<and>
      get_mean_speed (Swimming 720 1 80 25 40) = Inr v \<and> 0 \<le> v)"
proof -
  have h1: "\<forall>r \<in> set (readings (Swimming 720 1 80 25 40)). 0 \<le> r"
    by simp
  have h2: "0 < duration (Swimming 720 1 80 25 40)"
    by simp
  have "list_all (\<lambda>r. 0 \<le> r) (readings (Swimming 720 1 80 25 40))"
    by simp
  then show ?thesis
    using h2 nonnegative_distance_and_speed [OF h1 h2] by blast
qed

text \<open>
  Claim C10. The distance of a \<^verbatim>\<open>Swimming\<close> workout comes from the stroke count,
  \<open>action * 1.38 / 1000\<close>, and its mean speed from the pool: for the readings
  \<^verbatim>\<open>[720, 1, 80, 25, 40]\<close> the distance is 0.9936 km, the mean speed 1 km/h, and the
  mean speed is not the distance over the duration.
\<close>

theorem swimming_distance_speed_inconsistent:
  "get_distance (Swimming a d w lp cp) = Inr (a * 1.38 / 1000) \<and>
   get_distance (Swimming 720 1 80 25 40) = Inr 0.9936 \<and>
   get_mean_speed (Swimming 720 1 80 25 40) = Inr 1 \<and>
   (\<exists>km v. get_distance (Swimming 720 1 80 25 40) = Inr km \<and>
      get_mean_speed (Swimming 720 1 80 25 40) = Inr v \<and>
      v \<noteq> km / duration (Swimming 720 1 80 25 40))"
proof -
  have general: "get_distance (Swimming a d w lp cp) = Inr (a * 1.38 / 1000)"
    by (simp add: get_distance_eq)
  have km: "get_distance (Swimming 720 1 80 25 40) = Inr 0.9936"
    by (simp add: get_distance_eq)
  have v: "get_mean_speed (Swimming 720 1 80 25 40) = Inr 1"
    by (simp add: Swimming_get_mean_speed_eq)
  have "(1::real) \<noteq> 0.9936 / duration (Swimming 720 1 80 25 40)"
    by simp
  with general km v show ?thesis
    by blast
qed

theorem swimming_distance_speed_inconsistent_witness:
  "get_distance (Swimming 720 1 80 25 40) = Inr (720 * 1.38 / 1000) \<and>
   get_mean_speed (Swimming 720 1 80 25 40) = Inr 1"
  using swimming_distance_speed_inconsistent [of 720 1 80 25 40] by simp

section \<open>Faults\<close>

text \<open>
  Claim C7. For a code other than \<^verbatim>\<open>SWM\<close>, \<^verbatim>\<open>RUN\<close> and \<^verbatim>\<open>WLK\<close> and any data,
  \<^verbatim>\<open>read_package\<close> raises nothing: it prints the one line of its diagnostic and
  returns \<^verbatim>\<open>None\<close>; \<^verbatim>\<open>main\<close> on \<^verbatim>\<open>None\<close> raises nothing and prints nothing; and the
  loop goes on with the remaining pairs, its output longer by the diagnostic only.
\<close>

theorem unknown_code_skipped:
  assumes "workout_type \<notin> {''SWM'', ''RUN'', ''WLK''}"
  shows "read_package workout_type data out =
           (Inr None, out @ [key_error_message workout_type]) \<and>
         main None out' = (Inr (), out') \<and>
         run_packages ((workout_type, data) # rest) out =
           run_packages rest (out @ [key_error_message workout_type])"
  using assms by (simp add: read_package_unknown main_None)

theorem unknown_code_skipped_witness:
  "''XYZ'' \<notin> {''SWM'', ''RUN'', ''WLK''} \<and>
   read_package ''XYZ'' [1, 2] [] = (Inr None, [key_error_message ''XYZ'']) \<and>
   main None [key_error_message ''XYZ''] = (Inr (), [key_error_message ''XYZ'']) \<and>
   run_packages [(''XYZ'', [1, 2])] [] = (Inr (), [key_error_message ''XYZ''])"
proof -
  have h: "''XYZ'' \<notin> {''SWM'', ''RUN'', ''WLK''}"
    by simp
  show ?thesis
    using h unknown_code_skipped [OF h, of "[1, 2]" "[]" "[key_error_message ''XYZ'']" "[]"]
    by simp
qed

text \<open>
  Claim C8. The calorie computation of the base class always raises
  \<^verbatim>\<open>NotImplementedError\<close>, an exception of its own kind and none of the others the
  module can raise. It ends the report of that object: when the duration is not zero
  (so that the mean speed, evaluated before, is defined) \<^verbatim>\<open>show_training_info\<close>
  raises it, and \<^verbatim>\<open>main\<close>, which catches \<^verbatim>\<open>AttributeError\<close> only, prints nothing
  and lets it through.
\<close>

theorem base_calories_not_implemented:
  "get_spent_calories (Training a d w) = Inl NotImplementedError \<and>
   NotImplementedError \<notin> {ZeroDivisionError, KeyError, AttributeError, TypeError} \<and>
   show_training_info (Training a d w) =
     Inl (if d = 0 then ZeroDivisionError else NotImplementedError) \<and>
   main (Some (Training a d w)) out =
     (Inl (if d = 0 then ZeroDivisionError else NotImplementedError), out)"
  by (simp add: Training_get_spent_calories_def show_training_info_base main_def)

theorem base_calories_not_implemented_witness:
  "get_spent_calories (Training 15000 1 75) = Inl NotImplementedError \<and>
   show_training_info (Training 15000 1 75) = Inl NotImplementedError \<and>
   main (Some (Training 15000 1 75)) [] = (Inl NotImplementedError, [])"
  using base_calories_not_implemented [of 15000 1 75 "[]"] by simp

section \<open>The report line\<close>

text \<open>
  The rendering of \<^verbatim>\<open>.3f\<close> is always a numeral with exactly three decimals: the
  digits of \<open>str_nat\<close> are decimal digits and there is at least one of them.
\<close>

lemma digit_char_in_digits: "digit_char d \<in> set ''0123456789''"
proof -
  have "d mod 10 < length ''0123456789''"
    by simp
  then show ?thesis
    unfolding digit_char_def by (rule nth_mem)
qed

lemma is_digit_digit_char: "is_digit (digit_char d)"
  using digit_char_in_digits by (simp add: is_digit_def)

lemma str_nat_digits: "list_all is_digit (str_nat n)"
  by (induction n rule: str_nat.induct) (subst str_nat.simps, simp add: is_digit_digit_char)

lemma str_nat_not_Nil: "str_nat n \<noteq> []"
  by (subst str_nat.simps) simp

lemma three_decimals_unsigned:
  assumes "list_all is_digit ip" and "ip \<noteq> []"
  shows "three_decimals (ip @ ''.'' @ [digit_char a, digit_char b, digit_char c])"
proof -
  obtain x xs where ip: "ip = x # xs"
    using assms(2) by (cases ip) auto
  with assms(1) have "x \<noteq> CHR ''-''"
    by (auto simp: is_digit_def)
  then show ?thesis
    using assms(1) ip
    by (simp add: three_decimals_def is_digit_digit_char nth_append Let_def)
qed

lemma three_decimals_signed:
  assumes "list_all is_digit ip" and "ip \<noteq> []"
  shows "three_decimals (''-'' @ ip @ ''.'' @ [digit_char a, digit_char b, digit_char c])"
  using assms
  by (cases ip) (simp_all add: three_decimals_def is_digit_digit_char nth_append Let_def)

lemma three_decimals_format_3f: "three_decimals (format_3f x)"
  using three_decimals_unsigned [OF str_nat_digits str_nat_not_Nil]
    three_decimals_signed [OF str_nat_digits str_nat_not_Nil]
  by (simp add: format_3f_def Let_def)

lemmas format_eval = format_3f_def round_half_even_def Let_def str_nat.simps digit_char_def

lemma format_3f_examples:
  "format_3f 1 = ''1.000''"
  "format_3f 9.75 = ''9.750''"
  "format_3f 699.75 = ''699.750''"
  "format_3f 0.9936 = ''0.994''"
  "format_3f 336 = ''336.000''"
  "format_3f 5.85 = ''5.850''"
  "format_3f 157.5 = ''157.500''"
  "format_3f 0.0625 = ''0.062''"
  "format_3f (- 0.0001) = ''-0.000''"
  by (simp_all add: format_eval)

lemma format_3f_fractions:
  "format_3f (39 / 4) = ''9.750''"
  "format_3f (2799 / 4) = ''699.750''"
  "format_3f (621 / 625) = ''0.994''"
  "format_3f (117 / 20) = ''5.850''"
  "format_3f (315 / 2) = ''157.500''"
  by (simp_all add: format_eval)

text \<open>
  Claim C6, as amended. The report line is the fixed template of the source, whose
  words are Russian (the English of the specification translates them):
  \<^verbatim>\<open>Tip trenirovki: {training_type}; Dlitel'nost': {duration:.3f} ch.;
  Distantsiya: {distance:.3f} km; Sr. skorost': {speed:.3f} km/ch;
  Potracheno kkal: {calories:.3f}.\<close> in Cyrillic letters, with the four numbers in
  this order, each rendered with exactly three decimals.
\<close>

theorem report_template:
  "get_message info =
     ru_Tip @ '' '' @ ru_trenirovki @ '': '' @ training_type info @ ''; '' @
     ru_Dlitelnost @ '': '' @ format_3f (duration_msg info) @ '' '' @ ru_ch @ ''.; '' @
     ru_Distantsiya @ '': '' @ format_3f (distance info) @ '' '' @ ru_km @ ''; '' @
     ru_Sr @ ''. '' @ ru_skorost @ '': '' @ format_3f (speed info) @ '' '' @ ru_km @ ''/'' @
       ru_ch @ ''; '' @
     ru_Potracheno @ '' '' @ ru_kkal @ '': '' @ format_3f (calories info) @ ''.'' \<and>
   three_decimals (format_3f (duration_msg info)) \<and>
   three_decimals (format_3f (distance info)) \<and>
   three_decimals (format_3f (speed info)) \<and>
   three_decimals (format_3f (calories info))"
  by (simp add: get_message_def three_decimals_format_3f)

theorem report_template_witness:
  "get_message \<lparr>training_type = ''Running'', duration_msg = 1, distance = 9.75,
      speed = 9.75, calories = 699.75\<rparr> =
     ru_Tip @ '' '' @ ru_trenirovki @ '': Running; '' @
     ru_Dlitelnost @ '': 1.000 '' @ ru_ch @ ''.; '' @
     ru_Distantsiya @ '': 9.750 '' @ ru_km @ ''; '' @
     ru_Sr @ ''. '' @ ru_skorost @ '': 9.750 '' @ ru_km @ ''/'' @ ru_ch @ ''; '' @
     ru_Potracheno @ '' '' @ ru_kkal @ '': 699.750.'' \<and>
   three_decimals ''699.750''"
  using report_template [of "\<lparr>training_type = ''Running'', duration_msg = 1, distance = 9.75,
      speed = 9.75, calories = 699.75\<rparr>"]
  by (simp add: format_3f_examples format_3f_fractions)

text \<open>
  Claim C6 as the specification states it, with the English wording, fails on every
  report; here on the report of the run of 15000 steps.
\<close>

theorem report_template_counterexample:
  "get_message \<lparr>training_type = ''Running'', duration_msg = 1, distance = 9.75,
      speed = 9.75, calories = 699.75\<rparr> \<noteq>
   ''Training type: Running; Duration: 1.000 h.; Distance: 9.750 km; Avg. speed: 9.750 km/h; Calories burned: 699.750.''"
  by (simp add: get_message_def ru_Tip_def)

section \<open>The script\<close>

text \<open>
  The three packages of the script give three reports and no fault. The numbers are
  those of the exact arithmetic: 0.9936 is printed as 0.994.
\<close>

lemma show_training_info_demo:
  "show_training_info (Swimming 720 1 80 25 40) =
     Inr \<lparr>training_type = ''Swimming'', duration_msg = 1, distance = 0.9936,
          speed = 1, calories = 336\<rparr>"
  "show_training_info (Running 15000 1 75) =
     Inr \<lparr>training_type = ''Running'', duration_msg = 1, distance = 9.75,
          speed = 9.75, calories = 699.75\<rparr>"
  "show_training_info (SportsWalking 9000 1 75 180) =
     Inr \<lparr>training_type = ''SportsWalking'', duration_msg = 1, distance = 5.85,
          speed = 5.85, calories = 157.5\<rparr>"
  by (simp_all add: show_training_info_def get_distance_eq Training_get_mean_speed_eq
      Swimming_get_mean_speed_eq Running_get_spent_calories_eq
      SportsWalking_get_spent_calories_eq Swimming_get_spent_calories_eq power2_eq_square)

lemma script_output:
  "run_packages packages [] =
     (Inr (),
      [ru_Tip @ '' '' @ ru_trenirovki @ '': Swimming; '' @
       ru_Dlitelnost @ '': 1.000 '' @ ru_ch @ ''.; '' @
       ru_Distantsiya @ '': 0.994 '' @ ru_km @ ''; '' @
       ru_Sr @ ''. '' @ ru_skorost @ '': 1.000 '' @ ru_km @ ''/'' @ ru_ch @ ''; '' @
       ru_Potracheno @ '' '' @ ru_kkal @ '': 336.000.'',
       ru_Tip @ '' '' @ ru_trenirovki @ '': Running; '' @
       ru_Dlitelnost @ '': 1.000 '' @ ru_ch @ ''.; '' @
       ru_Distantsiya @ '': 9.750 '' @ ru_km @ ''; '' @
       ru_Sr @ ''. '' @ ru_skorost @ '': 9.750 '' @ ru_km @ ''/'' @ ru_ch @ ''; '' @
       ru_Potracheno @ '' '' @ ru_kkal @ '': 699.750.'',
       ru_Tip @ '' '' @ ru_trenirovki @ '': SportsWalking; '' @
       ru_Dlitelnost @ '': 1.000 '' @ ru_ch @ ''.; '' @
       ru_Distantsiya @ '': 5.850 '' @ ru_km @ ''; '' @
       ru_Sr @ ''. '' @ ru_skorost @ '': 5.850 '' @ ru_km @ ''/'' @ ru_ch @ ''; '' @
       ru_Potracheno @ '' '' @ ru_kkal @ '': 157.500.''])"
  by (simp add: packages_def read_package_known main_def show_training_info_demo
      get_message_def format_3f_examples format_3f_fractions)

end
